theory Spec2Isabelle
  imports Main
begin

section \<open>The resource graph built by \<open>src/index.ts\<close>\<close>

text \<open>
  \<open>src/index.ts\<close> is one class, \<open>WlEc2Stack\<close>, whose constructor creates a fixed
  sequence of provisioning-toolkit constructs inside a stack, followed by three top-level
  statements that create the app, the stack and synthesise it. The embedding follows the
  constructor statement by statement. Every \<open>new X(this, id, props)\<close> becomes a function
  that takes the stack built so far and returns the construct's handle together with the
  extended stack; the properties written in the source are the arguments.

  The constructs themselves (\<open>ec2.Vpc\<close>, \<open>ec2.PrivateSubnet\<close>, \<open>ec2.SecurityGroup\<close>,
  \<open>iam.Role\<close> and the \<open>Cfn*\<close> classes) belong to the toolkit and are not part of
  \<open>src/\<close>. They are modelled by the resources they add to the stack and by the
  attributes the source reads back from them; each such definition says so in its comment.
\<close>

subsection \<open>Values, references and construct paths\<close>

text \<open>
  A construct is identified by its path below the stack, outermost id first:
  \<open>new ec2.Vpc(this, 'AppVPC', ...)\<close> has path \<open>[''AppVPC'']\<close> and its VPC resource
  \<open>[''AppVPC'', ''Resource'']\<close>.
\<close>

type_synonym path = "string list"

text \<open>
  A property value is either a literal string or a token that the toolkit resolves at
  synthesis time: \<open>Ref p\<close> is the generated identifier of the resource at \<open>p\<close> (what
  \<open>.ref\<close>, \<open>.vpcId\<close>, \<open>.subnetId\<close>, \<open>.roleName\<close> return), \<open>GetAtt p a\<close> is attribute
  \<open>a\<close> of that resource (what \<open>.attrArn\<close>, \<open>.securityGroupId\<close> return), \<open>SsmParameter n\<close>
  is the value of a parameter-store entry looked up at deployment.
\<close>

datatype val =
    Str string
  | Ref path
  | GetAtt path string
  | SsmParameter string

text \<open>
  A CIDR literal \<open>'a.b.c.d/m'\<close> of the source is kept in parsed form, \<open>Cidr a b c d m\<close>.
\<close>

datatype cidr = Cidr nat nat nat nat nat

text \<open>
  An availability zone is a name, or, when the stack's environment is not known at synthesis
  time, the toolkit's token for the \<open>i\<close>-th zone of the region it is deployed to.
\<close>

datatype zone = Zone string | ZoneSelect nat

datatype error =
    EmptyConstructId
  | InvalidStackName string
  | DuplicateConstructId path
  | InvalidCidrRange nat
  | CidrSpaceExceeded nat
  | NoNatGatewayForPrivateSubnets
  | NoPublicSubnetForNat

definition andThen :: "error + 'a \<Rightarrow> ('a \<Rightarrow> error + 'b) \<Rightarrow> error + 'b" where
  "andThen m f = (case m of Inl e \<Rightarrow> Inl e | Inr x \<Rightarrow> f x)"

subsection \<open>Resource properties\<close>

text \<open>\<open>process.env\<close>: a variable is a string or undefined.\<close>

type_synonym process_env = "string \<Rightarrow> string option"

record environment =
  account :: "string option"
  region :: "string option"

record StackProps =
  description :: "string option"
  env :: "environment option"

datatype principal = ServicePrincipal string

datatype SubnetType = PUBLIC | PRIVATE | ISOLATED

record SubnetConfiguration =
  subnetType :: SubnetType
  name :: string
  cidrMask :: nat

record VpcProps =
  cidr :: cidr
  maxAzs :: nat
  subnetConfiguration :: "SubnetConfiguration list"

record SubnetProps =
  availabilityZone :: zone
  cidrBlock :: cidr
  vpcId :: val
  mapPublicIpOnLaunch :: bool

record CfnRouteProps =
  destinationCidrBlock :: cidr
  routeTableId :: val
  gatewayId :: "val option"
  natGatewayId :: "val option"
  carrierGatewayId :: "val option"

datatype Protocol = TCP | UDP | ICMP | ALL_PROTOCOLS

record Port =
  protocol :: Protocol
  fromPort :: "int option"
  toPort :: "int option"

datatype Peer = Ipv4 cidr

record Rule =
  rulePeer :: Peer
  rulePort :: Port
  ruleDescription :: string

record SecurityGroupResource =
  groupName :: "string option"
  groupVpcId :: val
  securityGroupIngress :: "Rule list"
  securityGroupEgress :: "Rule list"

record NetworkInterface =
  deviceIndex :: nat
  associateCarrierIpAddress :: bool
  groups :: "val list"
  deleteOnTermination :: bool
  subnetId :: val

record IamInstanceProfileSpec =
  arn :: val

record LaunchTemplateData =
  networkInterfaces :: "NetworkInterface list"
  imageId :: val
  instanceType :: string
  keyName :: string
  iamInstanceProfile :: IamInstanceProfileSpec

record CfnLaunchTemplateProps =
  launchTemplateName :: string
  launchTemplateData :: LaunchTemplateData

record LaunchTemplateSpecification =
  specLaunchTemplateName :: string
  version :: val

record CfnInstanceProps =
  launchTemplate :: LaunchTemplateSpecification
  instanceAvailabilityZone :: string

text \<open>The resources of the deployment template, one constructor per resource type.\<close>

datatype resource =
    IAM_Role principal
  | EC2_VPC cidr
  | EC2_Subnet SubnetProps
  | EC2_RouteTable val
  | EC2_SubnetRouteTableAssociation val val
  | EC2_InternetGateway
  | EC2_VPCGatewayAttachment val val
  | EC2_EIP
  | EC2_NatGateway val val
  | EC2_Route CfnRouteProps
  | EC2_CarrierGateway val
  | EC2_SecurityGroup SecurityGroupResource
  | IAM_InstanceProfile "val list"
  | EC2_LaunchTemplate CfnLaunchTemplateProps
  | EC2_Instance CfnInstanceProps

subsection \<open>The stack under construction\<close>

text \<open>
  \<open>availabilityZones\<close> is what the toolkit reports as the zones of the stack's
  environment (\<open>Stack.availabilityZones\<close>); \<open>constructs\<close> are the paths already taken,
  \<open>resources\<close> and \<open>outputs\<close> are in construction order.
\<close>

record Stack =
  stackId :: string
  stackEnv :: "environment option"
  availabilityZones :: "zone list"
  constructs :: "path list"
  resources :: "(path \<times> resource) list"
  outputs :: "(path \<times> val) list"

text \<open>The scope the stack is created in: the app, with the zones its context resolves.\<close>

record App =
  contextZones :: "zone list"

text \<open>
  Toolkit class \<open>cdk.Stack\<close>. A construct below the root needs a non-empty id, in which
  the toolkit replaces every path separator \<open>/\<close> by \<open>--\<close>. A stack directly below the
  app is named by that id; the name has to match \<open>/^[A-Za-z][A-Za-z0-9-]*$/\<close> and,
  as a stack name of the provider, to have at most 128 characters. The constructor throws
  otherwise.
\<close>

definition sanitizeId :: "string \<Rightarrow> string" where
  "sanitizeId ident = concat (map (\<lambda>c. if c = CHR ''/'' then ''--'' else [c]) ident)"

definition isLetter :: "char \<Rightarrow> bool" where
  "isLetter c =
     (((65::nat) \<le> of_char c \<and> of_char c \<le> (90::nat)) \<or>
      ((97::nat) \<le> of_char c \<and> of_char c \<le> (122::nat)))"

definition isDigit :: "char \<Rightarrow> bool" where
  "isDigit c = ((48::nat) \<le> of_char c \<and> of_char c \<le> (57::nat))"

definition validStackName :: "string \<Rightarrow> bool" where
  "validStackName n =
     (length n \<le> 128 \<and>
      (case n of
         [] \<Rightarrow> False
       | c # cs \<Rightarrow> isLetter c \<and> list_all (\<lambda>d. isLetter d \<or> isDigit d \<or> d = CHR ''-'') cs))"

definition Stack_new :: "App \<Rightarrow> string \<Rightarrow> StackProps \<Rightarrow> error + Stack" where
  "Stack_new scope ident props =
     (if ident = [] then Inl EmptyConstructId
      else if validStackName (sanitizeId ident) then
        Inr \<lparr>stackId = sanitizeId ident, stackEnv = env props,
             availabilityZones = contextZones scope,
             constructs = [], resources = [], outputs = []\<rparr>
      else Inl (InvalidStackName (sanitizeId ident)))"

text \<open>The toolkit rejects a second construct with a path already in use.\<close>

definition addConstruct :: "Stack \<Rightarrow> path \<Rightarrow> error + Stack" where
  "addConstruct s p =
     (if p \<in> set (constructs s) then Inl (DuplicateConstructId p)
      else Inr (s\<lparr>constructs := constructs s @ [p]\<rparr>))"

definition addResource :: "Stack \<Rightarrow> path \<Rightarrow> resource \<Rightarrow> error + Stack" where
  "addResource s p r =
     andThen (addConstruct s p) (\<lambda>s'. Inr (s'\<lparr>resources := resources s' @ [(p, r)]\<rparr>))"

subsection \<open>Address blocks\<close>

text \<open>
  Toolkit code, not under \<open>src/\<close>: the address arithmetic with which \<open>ec2.Vpc\<close>
  carves the subnets of its \<open>subnetConfiguration\<close> out of its \<open>cidr\<close>. Addresses are
  numbers; a block keeps the last address of the range it was created from and rounds down
  to its own size, so a start that is not aligned moves up to the next aligned block.
\<close>

definition ipToNum :: "nat \<Rightarrow> nat \<Rightarrow> nat \<Rightarrow> nat \<Rightarrow> nat" where
  "ipToNum a b c d = ((a * 256 + b) * 256 + c) * 256 + d"

definition calculateNetsize :: "nat \<Rightarrow> nat" where
  "calculateNetsize m = 2 ^ (32 - m)"

record CidrBlock =
  networkAddress :: nat
  mask :: nat

definition CidrBlock_ofCidr :: "cidr \<Rightarrow> CidrBlock" where
  "CidrBlock_ofCidr c =
     (case c of Cidr a b c d m \<Rightarrow>
        \<lparr>networkAddress = ipToNum a b c d + calculateNetsize m - 1, mask = m\<rparr>)"

definition CidrBlock_ofNum :: "nat \<Rightarrow> nat \<Rightarrow> CidrBlock" where
  "CidrBlock_ofNum ip m = \<lparr>networkAddress = ip + calculateNetsize m - 1, mask = m\<rparr>"

definition networkSize :: "CidrBlock \<Rightarrow> nat" where
  "networkSize cb = 2 ^ (32 - mask cb)"

definition minAddress :: "CidrBlock \<Rightarrow> nat" where
  "minAddress cb = networkAddress cb - networkAddress cb mod networkSize cb"

definition maxAddress :: "CidrBlock \<Rightarrow> nat" where
  "maxAddress cb = minAddress cb + networkSize cb - 1"

definition nextBlock :: "CidrBlock \<Rightarrow> CidrBlock" where
  "nextBlock cb = CidrBlock_ofNum (maxAddress cb + 1) (mask cb)"

definition numToCidr :: "nat \<Rightarrow> nat \<Rightarrow> cidr" where
  "numToCidr n m =
     Cidr (n div 16777216 mod 256) (n div 65536 mod 256) (n div 256 mod 256) (n mod 256) m"

definition cidrOf :: "CidrBlock \<Rightarrow> cidr" where
  "cidrOf cb = numToCidr (minAddress cb) (mask cb)"



record NetworkBuilder =
  networkCidr :: CidrBlock
  nextAvailableIp :: nat

definition NetworkBuilder_new :: "cidr \<Rightarrow> NetworkBuilder" where
  "NetworkBuilder_new c =
     \<lparr>networkCidr = CidrBlock_ofCidr c, nextAvailableIp = minAddress (CidrBlock_ofCidr c)\<rparr>"

definition addSubnet :: "NetworkBuilder \<Rightarrow> nat \<Rightarrow> error + (cidr \<times> NetworkBuilder)" where
  "addSubnet nb m =
     (if m < 16 \<or> 28 < m then Inl (InvalidCidrRange m)
      else if maxAddress (networkCidr nb) < nextAvailableIp nb + calculateNetsize m - 1
        then Inl (CidrSpaceExceeded m)
      else
        (let subnet = CidrBlock_ofNum (nextAvailableIp nb) m
         in Inr (cidrOf subnet, nb\<lparr>nextAvailableIp := minAddress (nextBlock subnet)\<rparr>)))"

subsection \<open>Subnets\<close>

text \<open>
  Toolkit construct \<open>ec2.Subnet\<close> (\<open>PublicSubnet\<close> and \<open>PrivateSubnet\<close> extend it
  without adding resources of their own): a subnet resource, a route table of its own in
  the same network, and their association. The handle gives what the source reads:
  \<open>subnetId\<close> and \<open>routeTable.routeTableId\<close>. \<open>scope\<close> is the path of the parent
  construct, \<open>[]\<close> for the stack itself.
\<close>

record ISubnet =
  node :: path
  subnet_subnetId :: val
  subnet_availabilityZone :: zone
  ipv4CidrBlock :: cidr
  routeTable_routeTableId :: val

definition Subnet_new :: "Stack \<Rightarrow> path \<Rightarrow> string \<Rightarrow> SubnetProps \<Rightarrow> error + (ISubnet \<times> Stack)" where
  "Subnet_new s scope ident props =
     (let p = scope @ [ident] in
      andThen (addConstruct s p) (\<lambda>s1.
      andThen (addResource s1 (p @ [''Subnet'']) (EC2_Subnet props)) (\<lambda>s2.
      andThen (addResource s2 (p @ [''RouteTable'']) (EC2_RouteTable (vpcId props))) (\<lambda>s3.
      andThen (addResource s3 (p @ [''RouteTableAssociation''])
                 (EC2_SubnetRouteTableAssociation (Ref (p @ [''RouteTable''])) (Ref (p @ [''Subnet''])))) (\<lambda>s4.
      Inr (\<lparr>node = p, subnet_subnetId = Ref (p @ [''Subnet'']),
            subnet_availabilityZone = availabilityZone props,
            ipv4CidrBlock = cidrBlock props,
            routeTable_routeTableId = Ref (p @ [''RouteTable''])\<rparr>, s4))))))"

definition PrivateSubnet_new :: "Stack \<Rightarrow> path \<Rightarrow> string \<Rightarrow> SubnetProps \<Rightarrow> error + (ISubnet \<times> Stack)" where
  "PrivateSubnet_new = Subnet_new"

definition PublicSubnet_new :: "Stack \<Rightarrow> path \<Rightarrow> string \<Rightarrow> SubnetProps \<Rightarrow> error + (ISubnet \<times> Stack)" where
  "PublicSubnet_new = Subnet_new"

definition anyIpv4Cidr :: cidr where
  "anyIpv4Cidr = Cidr 0 0 0 0 0"

datatype RouterType = GATEWAY | NAT_GATEWAY

text \<open>\<open>subnet.addRoute(id, ...)\<close>: a default route in the subnet's own route table.\<close>

definition Subnet_addRoute :: "Stack \<Rightarrow> ISubnet \<Rightarrow> string \<Rightarrow> RouterType \<Rightarrow> val \<Rightarrow> error + Stack" where
  "Subnet_addRoute s sn ident rt router =
     addResource s (node sn @ [ident])
       (EC2_Route \<lparr>destinationCidrBlock = anyIpv4Cidr,
                   routeTableId = routeTable_routeTableId sn,
                   gatewayId = (if rt = GATEWAY then Some router else None),
                   natGatewayId = (if rt = NAT_GATEWAY then Some router else None),
                   carrierGatewayId = None\<rparr>)"

subsection \<open>The network\<close>

text \<open>
  Toolkit construct \<open>ec2.Vpc\<close>. It takes at most \<open>maxAzs\<close> of the stack's zones and
  creates, for every entry of \<open>subnetConfiguration\<close> in order and every such zone, a
  subnet named \<open>\<langle>name\<rangle>Subnet\<langle>index + 1\<rangle>\<close> with the next free block of the requested
  size; the subnet goes to \<open>publicSubnets\<close>, \<open>privateSubnets\<close> or \<open>isolatedSubnets\<close>
  by its type. When some entry is not isolated it adds an internet gateway, its attachment
  and a default route in every public subnet; when some entry is private it puts one NAT
  gateway into the public subnet of each zone and a default route to the gateway of its
  own zone into every private subnet.

  The number of NAT gateways is fixed before any subnet is created. The source gives no
  \<open>natGateways\<close>, so it is the number of zones used when some entry is private and zero
  otherwise. The constructor throws when private subnets are configured and that number is
  zero (no zone), and when gateways are needed and no entry is public.
\<close>

record Vpc =
  vpcNode :: path
  vpc_vpcId :: val
  publicSubnets :: "ISubnet list"
  privateSubnets :: "ISubnet list"
  isolatedSubnets :: "ISubnet list"

record VpcBuild =
  vb_public :: "ISubnet list"
  vb_private :: "ISubnet list"
  vb_isolated :: "ISubnet list"
  vb_builder :: NetworkBuilder
  vb_stack :: Stack

function decimal :: "nat \<Rightarrow> string" where
  "decimal n =
     (if n < 10 then [''0123456789'' ! n] else decimal (n div 10) @ [''0123456789'' ! (n mod 10)])"
  by pat_completeness auto
termination
  by (relation "measure id") auto

declare decimal.simps [simp del]

definition subnetName :: "string \<Rightarrow> nat \<Rightarrow> string" where
  "subnetName nm i = nm @ ''Subnet'' @ decimal (i + 1)"

definition pushSubnet :: "SubnetType \<Rightarrow> ISubnet \<Rightarrow> VpcBuild \<Rightarrow> VpcBuild" where
  "pushSubnet t sn b =
     (case t of
        PUBLIC \<Rightarrow> b\<lparr>vb_public := vb_public b @ [sn]\<rparr>
      | PRIVATE \<Rightarrow> b\<lparr>vb_private := vb_private b @ [sn]\<rparr>
      | ISOLATED \<Rightarrow> b\<lparr>vb_isolated := vb_isolated b @ [sn]\<rparr>)"

fun createSubnetResources ::
  "path \<Rightarrow> val \<Rightarrow> SubnetConfiguration \<Rightarrow> (nat \<times> zone) list \<Rightarrow> VpcBuild \<Rightarrow> error + VpcBuild" where
  "createSubnetResources vp vid cfg [] b = Inr b"
| "createSubnetResources vp vid cfg ((i, zone) # zs) b =
     andThen (addSubnet (vb_builder b) (cidrMask cfg)) (\<lambda>(c, nb).
     andThen ((case subnetType cfg of PUBLIC \<Rightarrow> PublicSubnet_new | _ \<Rightarrow> PrivateSubnet_new)
                (vb_stack b) vp (subnetName (name cfg) i)
                \<lparr>availabilityZone = zone, cidrBlock = c, vpcId = vid,
                 mapPublicIpOnLaunch = (subnetType cfg = PUBLIC)\<rparr>) (\<lambda>(sn, s').
     createSubnetResources vp vid cfg zs
       (pushSubnet (subnetType cfg) sn (b\<lparr>vb_builder := nb, vb_stack := s'\<rparr>))))"

fun createSubnets ::
  "path \<Rightarrow> val \<Rightarrow> zone list \<Rightarrow> SubnetConfiguration list \<Rightarrow> VpcBuild \<Rightarrow> error + VpcBuild" where
  "createSubnets vp vid zones [] b = Inr b"
| "createSubnets vp vid zones (cfg # cfgs) b =
     andThen (createSubnetResources vp vid cfg (enumerate 0 zones) b)
       (createSubnets vp vid zones cfgs)"

fun addDefaultInternetRoutes :: "val \<Rightarrow> ISubnet list \<Rightarrow> Stack \<Rightarrow> error + Stack" where
  "addDefaultInternetRoutes igw [] s = Inr s"
| "addDefaultInternetRoutes igw (sn # sns) s =
     andThen (Subnet_addRoute s sn ''DefaultRoute'' GATEWAY igw) (addDefaultInternetRoutes igw sns)"

text \<open>One NAT gateway with its address per given public subnet, remembered by zone.\<close>

fun addNatGateways ::
  "ISubnet list \<Rightarrow> (zone \<times> val) list \<Rightarrow> Stack \<Rightarrow> error + ((zone \<times> val) list \<times> Stack)" where
  "addNatGateways [] gws s = Inr (gws, s)"
| "addNatGateways (sn # sns) gws s =
     andThen (addResource s (node sn @ [''EIP'']) EC2_EIP) (\<lambda>s1.
     andThen (addResource s1 (node sn @ [''NATGateway''])
                (EC2_NatGateway (subnet_subnetId sn) (GetAtt (node sn @ [''EIP'']) ''AllocationId''))) (\<lambda>s2.
     addNatGateways sns (gws @ [(subnet_availabilityZone sn, Ref (node sn @ [''NATGateway'']))]) s2))"

text \<open>
  A private subnet routes to the gateway of its own zone. The toolkit falls back to another
  zone's gateway when there is none; with one gateway per zone used, as the source has it,
  every private subnet finds the gateway of its zone.
\<close>

fun configureSubnets :: "(zone \<times> val) list \<Rightarrow> ISubnet list \<Rightarrow> Stack \<Rightarrow> error + Stack" where
  "configureSubnets gws [] s = Inr s"
| "configureSubnets gws (sn # sns) s =
     (case map_of gws (subnet_availabilityZone sn) of
        None \<Rightarrow> Inl NoPublicSubnetForNat
      | Some gw \<Rightarrow>
          andThen (Subnet_addRoute s sn ''DefaultRoute'' NAT_GATEWAY gw) (configureSubnets gws sns))"

definition determineNatGatewayCount :: "SubnetConfiguration list \<Rightarrow> nat \<Rightarrow> error + nat" where
  "determineNatGatewayCount cfgs azCount =
     (let hasPrivateSubnets = list_ex (\<lambda>c. subnetType c = PRIVATE) cfgs;
          hasPublicSubnets = list_ex (\<lambda>c. subnetType c = PUBLIC) cfgs;
          n = (if hasPrivateSubnets then azCount else 0)
      in if n = 0 \<and> hasPrivateSubnets then Inl NoNatGatewayForPrivateSubnets
         else if 0 < n \<and> \<not> hasPublicSubnets then Inl NoPublicSubnetForNat
         else Inr n)"

definition createGateways :: "path \<Rightarrow> val \<Rightarrow> nat \<Rightarrow> SubnetConfiguration list \<Rightarrow> VpcBuild \<Rightarrow> error + Stack" where
  "createGateways vp vid natGatewayCount cfgs b =
     (if list_ex (\<lambda>c. subnetType c \<noteq> ISOLATED) cfgs then
        andThen (addResource (vb_stack b) (vp @ [''IGW'']) EC2_InternetGateway) (\<lambda>s1.
        andThen (addResource s1 (vp @ [''VPCGW''])
                   (EC2_VPCGatewayAttachment (Ref (vp @ [''IGW''])) vid)) (\<lambda>s2.
        andThen (addDefaultInternetRoutes (Ref (vp @ [''IGW''])) (vb_public b) s2) (\<lambda>s3.
        if 0 < natGatewayCount then
          andThen (addNatGateways (take natGatewayCount (vb_public b)) [] s3) (\<lambda>(gws, s4).
          configureSubnets gws (vb_private b) s4)
        else Inr s3)))
      else Inr (vb_stack b))"

definition Vpc_new :: "Stack \<Rightarrow> string \<Rightarrow> VpcProps \<Rightarrow> error + (Vpc \<times> Stack)" where
  "Vpc_new s ident props =
     (let vp = [ident];
          vid = Ref (vp @ [''Resource'']);
          zones = take (maxAzs props) (availabilityZones s)
      in
      andThen (addConstruct s vp) (\<lambda>s1.
      andThen (addResource s1 (vp @ [''Resource'']) (EC2_VPC (cidr props))) (\<lambda>s2.
      andThen (determineNatGatewayCount (subnetConfiguration props) (length zones)) (\<lambda>natGatewayCount.
      andThen (createSubnets vp vid zones (subnetConfiguration props)
                 \<lparr>vb_public = [], vb_private = [], vb_isolated = [],
                  vb_builder = NetworkBuilder_new (cidr props), vb_stack = s2\<rparr>) (\<lambda>b.
      andThen (createGateways vp vid natGatewayCount (subnetConfiguration props) b) (\<lambda>s3.
      Inr (\<lparr>vpcNode = vp, vpc_vpcId = vid, publicSubnets = vb_public b,
            privateSubnets = vb_private b, isolatedSubnets = vb_isolated b\<rparr>, s3)))))))"

subsection \<open>Identity, gateway, security group, launch template, instance\<close>

text \<open>Toolkit construct \<open>iam.Role\<close>: one role resource; \<open>roleName\<close> is its reference.\<close>

record Role =
  roleNode :: path
  roleName :: val

definition Role_new :: "Stack \<Rightarrow> string \<Rightarrow> principal \<Rightarrow> error + (Role \<times> Stack)" where
  "Role_new s ident assumedBy =
     andThen (addConstruct s [ident]) (\<lambda>s1.
     andThen (addResource s1 [ident, ''Resource''] (IAM_Role assumedBy)) (\<lambda>s2.
     Inr (\<lparr>roleNode = [ident], roleName = Ref [ident, ''Resource'']\<rparr>, s2)))"

text \<open>
  The \<open>Cfn*\<close> classes are the resources themselves: the handle is the construct's path,
  \<open>.ref\<close> its reference and \<open>.attrX\<close> its attribute \<open>X\<close>.
\<close>

definition ref :: "path \<Rightarrow> val" where
  "ref p = Ref p"

definition attrArn :: "path \<Rightarrow> val" where
  "attrArn p = GetAtt p ''Arn''"

definition attrDefaultVersionNumber :: "path \<Rightarrow> val" where
  "attrDefaultVersionNumber p = GetAtt p ''DefaultVersionNumber''"

definition attrPublicDnsName :: "path \<Rightarrow> val" where
  "attrPublicDnsName p = GetAtt p ''PublicDnsName''"

definition CfnCarrierGateway_new :: "Stack \<Rightarrow> string \<Rightarrow> val \<Rightarrow> error + (path \<times> Stack)" where
  "CfnCarrierGateway_new s ident vpcId' =
     andThen (addResource s [ident] (EC2_CarrierGateway vpcId')) (\<lambda>s1. Inr ([ident], s1))"

definition CfnRoute_new :: "Stack \<Rightarrow> string \<Rightarrow> CfnRouteProps \<Rightarrow> error + (path \<times> Stack)" where
  "CfnRoute_new s ident props =
     andThen (addResource s [ident] (EC2_Route props)) (\<lambda>s1. Inr ([ident], s1))"

definition CfnInstanceProfile_new :: "Stack \<Rightarrow> string \<Rightarrow> val list \<Rightarrow> error + (path \<times> Stack)" where
  "CfnInstanceProfile_new s ident roles =
     andThen (addResource s [ident] (IAM_InstanceProfile roles)) (\<lambda>s1. Inr ([ident], s1))"

record CfnLaunchTemplate =
  ltNode :: path
  ltProps :: CfnLaunchTemplateProps

definition CfnLaunchTemplate_new ::
  "Stack \<Rightarrow> string \<Rightarrow> CfnLaunchTemplateProps \<Rightarrow> error + (CfnLaunchTemplate \<times> Stack)" where
  "CfnLaunchTemplate_new s ident props =
     andThen (addResource s [ident] (EC2_LaunchTemplate props)) (\<lambda>s1.
     Inr (\<lparr>ltNode = [ident], ltProps = props\<rparr>, s1))"

definition CfnInstance_new :: "Stack \<Rightarrow> string \<Rightarrow> CfnInstanceProps \<Rightarrow> error + (path \<times> Stack)" where
  "CfnInstance_new s ident props =
     andThen (addResource s [ident] (EC2_Instance props)) (\<lambda>s1. Inr ([ident], s1))"

definition CfnOutput_new :: "Stack \<Rightarrow> string \<Rightarrow> val \<Rightarrow> error + Stack" where
  "CfnOutput_new s ident v =
     andThen (addConstruct s [ident]) (\<lambda>s1. Inr (s1\<lparr>outputs := outputs s1 @ [([ident], v)]\<rparr>))"

text \<open>
  \<open>new ec2.AmazonLinuxImage().getImage(this).imageId\<close>: the toolkit's lookup of the
  current image in the parameter store.
\<close>

definition AmazonLinuxImage_imageId :: val where
  "AmazonLinuxImage_imageId =
     SsmParameter ''/aws/service/ami-amazon-linux-latest/amzn-ami-hvm-x86_64-gp2''"

text \<open>\<open>ec2.Peer.anyIpv4()\<close>, \<open>ec2.Port.tcp(p)\<close>, \<open>ec2.Port.icmpPing()\<close> (ICMP type 8, any code).\<close>

definition Peer_anyIpv4 :: Peer where
  "Peer_anyIpv4 = Ipv4 anyIpv4Cidr"

definition Port_tcp :: "int \<Rightarrow> Port" where
  "Port_tcp p = \<lparr>protocol = TCP, fromPort = Some p, toPort = Some p\<rparr>"

definition Port_icmpPing :: Port where
  "Port_icmpPing = \<lparr>protocol = ICMP, fromPort = Some 8, toPort = Some (- 1)\<rparr>"

definition Port_allTraffic :: Port where
  "Port_allTraffic = \<lparr>protocol = ALL_PROTOCOLS, fromPort = None, toPort = None\<rparr>"

text \<open>
  Toolkit construct \<open>ec2.SecurityGroup\<close>: one resource in the given network, with no
  ingress rule. With \<open>allowAllOutbound\<close> its egress is the single rule that allows all
  traffic to any IPv4 address; without, a single rule that matches no traffic.
\<close>

record SecurityGroupProps =
  sg_vpc :: Vpc
  allowAllOutbound :: bool
  securityGroupName :: string

record SecurityGroup =
  sgNode :: path
  securityGroupId :: val
  sgAllowAllOutbound :: bool

definition defaultEgress :: "bool \<Rightarrow> Rule list" where
  "defaultEgress allowAll =
     (if allowAll then
        [\<lparr>rulePeer = Peer_anyIpv4, rulePort = Port_allTraffic,
          ruleDescription = ''Allow all outbound traffic by default''\<rparr>]
      else
        [\<lparr>rulePeer = Ipv4 (Cidr 255 255 255 255 32),
          rulePort = \<lparr>protocol = ICMP, fromPort = Some 252, toPort = Some 86\<rparr>,
          ruleDescription = ''Disallow all traffic''\<rparr>])"

definition SecurityGroup_new :: "Stack \<Rightarrow> string \<Rightarrow> SecurityGroupProps \<Rightarrow> error + (SecurityGroup \<times> Stack)" where
  "SecurityGroup_new s ident props =
     andThen (addConstruct s [ident]) (\<lambda>s1.
     andThen (addResource s1 [ident, ''Resource'']
                (EC2_SecurityGroup
                   \<lparr>groupName = Some (securityGroupName props),
                    groupVpcId = vpc_vpcId (sg_vpc props),
                    securityGroupIngress = [],
                    securityGroupEgress = defaultEgress (allowAllOutbound props)\<rparr>)) (\<lambda>s2.
     Inr (\<lparr>sgNode = [ident], securityGroupId = GetAtt [ident, ''Resource''] ''GroupId'',
           sgAllowAllOutbound = allowAllOutbound props\<rparr>, s2)))"

text \<open>
  \<open>securityGroup.addIngressRule(peer, port, description)\<close> appends the rule to the
  group's resource unless a rule with the same peer and port is already there.
\<close>

definition ingressRulesEqual :: "Rule \<Rightarrow> Rule \<Rightarrow> bool" where
  "ingressRulesEqual a b = (rulePeer a = rulePeer b \<and> rulePort a = rulePort b)"

definition addDirectIngressRule :: "Rule \<Rightarrow> resource \<Rightarrow> resource" where
  "addDirectIngressRule rule r =
     (case r of
        EC2_SecurityGroup g \<Rightarrow>
          (if list_ex (ingressRulesEqual rule) (securityGroupIngress g) then r
           else EC2_SecurityGroup (g\<lparr>securityGroupIngress := securityGroupIngress g @ [rule]\<rparr>))
      | _ \<Rightarrow> r)"

definition addIngressRule :: "Stack \<Rightarrow> SecurityGroup \<Rightarrow> Peer \<Rightarrow> Port \<Rightarrow> string \<Rightarrow> Stack" where
  "addIngressRule s sg peer port d =
     s\<lparr>resources :=
         map (\<lambda>(p, r).
                if p = sgNode sg @ [''Resource'']
                then (p, addDirectIngressRule \<lparr>rulePeer = peer, rulePort = port, ruleDescription = d\<rparr> r)
                else (p, r))
             (resources s)\<rparr>"

section \<open>\<open>src/index.ts\<close>\<close>

text \<open>
  \<open>config.env\<close> (lines 5-12): the two variables read from the process environment, as it
  is after \<open>dotenv\<close> has added the entries of the local \<open>.env\<close> file.
\<close>

definition config_env :: "process_env \<Rightarrow> environment" where
  "config_env penv = \<lparr>account = penv ''AWS_ACCOUNT_NUMBER'', region = penv ''AWS_REGION''\<rparr>"

definition wavelengthAZ :: string where
  "wavelengthAZ = ''us-west-2-wl1-sfo-wlz-1''"

text \<open>The constructor's local constants and the stack, as they are when it returns.\<close>

record WlEc2Stack =
  stack :: Stack
  role :: Role
  vpc :: Vpc
  cagw :: path
  wlPrivateSubnet :: ISubnet
  securityGroup :: SecurityGroup
  instanceProfile :: path
  wlLaunchTemplate :: CfnLaunchTemplate
  wlEc2Instance :: path

text \<open>
  The constructor (lines 18-143). \<open>this\<close> is the stack that \<open>super(...)\<close> creates,
  threaded through the statements in the order they are written;
  \<open>{...props, env: config.env}\<close> replaces whatever environment the caller's properties
  carried. A failure of any toolkit constructor ends the construction with that error.
\<close>

definition WlEc2Stack_new ::
  "process_env \<Rightarrow> App \<Rightarrow> string \<Rightarrow> StackProps option \<Rightarrow> error + WlEc2Stack" where
  "WlEc2Stack_new penv scope ident props =
     (andThen (Stack_new scope ident
                 ((case props of None \<Rightarrow> \<lparr>description = None, env = None\<rparr> | Some p \<Rightarrow> p)
                    \<lparr>env := Some (config_env penv)\<rparr>))
        (\<lambda>this.
      andThen (Role_new this ''wlz-ec2-demo-role'' (ServicePrincipal ''ec2.amazonaws.com''))
        (\<lambda>(role, this).
      andThen (Vpc_new this ''AppVPC''
                 \<lparr>cidr = Cidr 10 0 0 0 16, maxAzs = 1,
                  subnetConfiguration =
                    [\<lparr>subnetType = PUBLIC, name = ''Public'', cidrMask = 24\<rparr>,
                     \<lparr>subnetType = PRIVATE, name = ''Private'', cidrMask = 24\<rparr>]\<rparr>)
        (\<lambda>(vpc, this).
      andThen (CfnCarrierGateway_new this ''wlz-ec2-cagw'' (vpc_vpcId vpc))
        (\<lambda>(cagw, this).
      andThen (PrivateSubnet_new this [] ''wlz-private-subnet''
                 \<lparr>availabilityZone = Zone wavelengthAZ, cidrBlock = Cidr 10 0 2 0 26,
                  vpcId = vpc_vpcId vpc, mapPublicIpOnLaunch = False\<rparr>)
        (\<lambda>(wlPrivateSubnet, this).
      (let vpc = vpc\<lparr>privateSubnets := privateSubnets vpc @ [wlPrivateSubnet]\<rparr> in
      andThen (CfnRoute_new this ''wlz-route''
                 \<lparr>destinationCidrBlock = Cidr 0 0 0 0 0,
                  routeTableId = routeTable_routeTableId wlPrivateSubnet,
                  gatewayId = None, natGatewayId = None,
                  carrierGatewayId = Some (ref cagw)\<rparr>)
        (\<lambda>(wlzRoute, this).
      andThen (SecurityGroup_new this ''wlz-sg''
                 \<lparr>sg_vpc = vpc, allowAllOutbound = True, securityGroupName = ''wlz-sg''\<rparr>)
        (\<lambda>(securityGroup, this).
      (let this = addIngressRule this securityGroup Peer_anyIpv4 (Port_tcp 22)
                    ''Allows SSH access from bastion'';
           this = addIngressRule this securityGroup Peer_anyIpv4 (Port_tcp 5000)
                    ''Allows HTTP access from carrier network'';
           this = addIngressRule this securityGroup Peer_anyIpv4 Port_icmpPing
                    ''Allows ICMP pings from carrier devices''
       in
      andThen (CfnInstanceProfile_new this ''wlz-instance-profile'' [roleName role])
        (\<lambda>(instanceProfile, this).
      andThen (CfnLaunchTemplate_new this ''wl-launch-template''
                 \<lparr>launchTemplateName = ''wl-launch-template'',
                  launchTemplateData =
                    \<lparr>networkInterfaces =
                       [\<lparr>deviceIndex = 0, associateCarrierIpAddress = True,
                         groups = [securityGroupId securityGroup],
                         deleteOnTermination = True,
                         subnetId = subnet_subnetId wlPrivateSubnet\<rparr>],
                     imageId = AmazonLinuxImage_imageId,
                     instanceType = ''t3.medium'',
                     keyName = ''wl-cdk-demo-1'',
                     iamInstanceProfile = \<lparr>arn = attrArn instanceProfile\<rparr>\<rparr>\<rparr>)
        (\<lambda>(wlLaunchTemplate, this).
      andThen (CfnInstance_new this ''wlz-ec2-instance''
                 \<lparr>launchTemplate =
                    \<lparr>specLaunchTemplateName = launchTemplateName (ltProps wlLaunchTemplate),
                     version = attrDefaultVersionNumber (ltNode wlLaunchTemplate)\<rparr>,
                  instanceAvailabilityZone = wavelengthAZ\<rparr>)
        (\<lambda>(wlEc2Instance, this).
      andThen (CfnOutput_new this ''wlz-instance-publicDNS:'' (attrPublicDnsName wlEc2Instance))
        (\<lambda>this.
      Inr \<lparr>stack = this, role = role, vpc = vpc, cagw = cagw,
           wlPrivateSubnet = wlPrivateSubnet, securityGroup = securityGroup,
           instanceProfile = instanceProfile, wlLaunchTemplate = wlLaunchTemplate,
           wlEc2Instance = wlEc2Instance\<rparr>))))))))))))))"

text \<open>
  Lines 146-148: the app, the stack with empty properties, and the synthesis, which hands
  the stack's resources and outputs to the toolkit as they stand.
\<close>

record Template =
  Resources :: "(path \<times> resource) list"
  Outputs :: "(path \<times> val) list"

definition synth :: "Stack \<Rightarrow> Template" where
  "synth s = \<lparr>Resources = resources s, Outputs = outputs s\<rparr>"

definition main :: "process_env \<Rightarrow> App \<Rightarrow> error + Template" where
  "main penv app =
     andThen (WlEc2Stack_new penv app ''WlEc2Stack'' (Some \<lparr>description = None, env = None\<rparr>))
       (\<lambda>w. Inr (synth (stack w)))"

section \<open>Reading the resource graph\<close>




definition instancesOf :: "Template \<Rightarrow> (path \<times> CfnInstanceProps) list" where
  "instancesOf t =
     concat (map (\<lambda>(p, r). case r of EC2_Instance props \<Rightarrow> [(p, props)] | _ \<Rightarrow> [])
                 (Resources t))"









section \<open>The graph the constructor builds\<close>

lemma decimal_1: "decimal (Suc 0) = ''1''"
  by (simp add: decimal.simps)

text \<open>The modelled checks are live: each rejects what it is there to reject.\<close>

lemma Stack_new_empty_id: "Stack_new scope [] props = Inl EmptyConstructId"
  by (simp add: Stack_new_def)

lemma Stack_new_invalid_name:
  "Stack_new scope ''bad id!'' props = Inl (InvalidStackName ''bad id!'')"
  by (simp add: Stack_new_def validStackName_def sanitizeId_def isLetter_def isDigit_def)

lemma validStackName_too_long: "128 < length n \<Longrightarrow> \<not> validStackName n"
  by (simp add: validStackName_def)

lemma sanitizeId_path_separator: "sanitizeId ''a/b'' = ''a--b''"
  by (simp add: sanitizeId_def)

lemma validStackName_WlEc2Stack: "validStackName (sanitizeId ''WlEc2Stack'')"
  by (simp add: validStackName_def sanitizeId_def isLetter_def isDigit_def)

lemma validStackName_nonempty: "validStackName (sanitizeId ident) \<Longrightarrow> ident \<noteq> []"
  by (auto simp add: validStackName_def sanitizeId_def)

lemma determineNatGatewayCount_no_zone:
  "list_ex (\<lambda>c. subnetType c = PRIVATE) cfgs \<Longrightarrow>
     determineNatGatewayCount cfgs 0 = Inl NoNatGatewayForPrivateSubnets"
  by (simp add: determineNatGatewayCount_def)

lemma addConstruct_duplicate:
  "p \<in> set (constructs s) \<Longrightarrow> addConstruct s p = Inl (DuplicateConstructId p)"
  by (simp add: addConstruct_def)

lemma addSubnet_mask_out_of_range:
  "addSubnet (NetworkBuilder_new (Cidr 10 0 0 0 16)) 29 = Inl (InvalidCidrRange 29)"
  by (simp add: addSubnet_def)

lemma addSubnet_no_space:
  "addSubnet ((NetworkBuilder_new (Cidr 10 0 0 0 24))\<lparr>nextAvailableIp := ipToNum 10 0 0 128\<rparr>) 24 =
     Inl (CidrSpaceExceeded 24)"
  by (simp add: addSubnet_def NetworkBuilder_new_def CidrBlock_ofCidr_def minAddress_def
      maxAddress_def networkSize_def calculateNetsize_def ipToNum_def)

lemma addDirectIngressRule_same_peer_and_port:
  "addDirectIngressRule r (addDirectIngressRule r (EC2_SecurityGroup g)) =
     addDirectIngressRule r (EC2_SecurityGroup g)"
  by (simp add: addDirectIngressRule_def ingressRulesEqual_def)

lemmas construct_defs =
  Role_new_def Vpc_new_def CfnCarrierGateway_new_def PrivateSubnet_new_def
  PublicSubnet_new_def Subnet_new_def CfnRoute_new_def SecurityGroup_new_def
  addIngressRule_def addDirectIngressRule_def ingressRulesEqual_def
  CfnInstanceProfile_new_def CfnLaunchTemplate_new_def CfnInstance_new_def CfnOutput_new_def
  addResource_def addConstruct_def andThen_def determineNatGatewayCount_def createGateways_def
  Subnet_addRoute_def subnetName_def pushSubnet_def defaultEgress_def Peer_anyIpv4_def
  Port_tcp_def Port_icmpPing_def Port_allTraffic_def anyIpv4Cidr_def ref_def attrArn_def
  attrDefaultVersionNumber_def attrPublicDnsName_def AmazonLinuxImage_imageId_def
  wavelengthAZ_def Let_def decimal_1

lemmas cidr_defs =
  addSubnet_def NetworkBuilder_new_def CidrBlock_ofCidr_def CidrBlock_ofNum_def
  minAddress_def maxAddress_def nextBlock_def networkSize_def calculateNetsize_def
  cidrOf_def numToCidr_def ipToNum_def



text \<open>
  With a valid id and at least one zone, none of the modelled checks fails, whatever the
  environment and the caller's properties, and this is everything the constructor returns.
  Of several zones \<open>maxAzs: 1\<close> keeps the first.
\<close>

lemma WlEc2Stack_new_result:
  assumes zones: "contextZones scope = z # zs"
    and valid: "validStackName (sanitizeId ident)"
  shows "WlEc2Stack_new penv scope ident props =
   Inr \<lparr>stack =
         \<lparr>stackId = sanitizeId ident, stackEnv = Some (config_env penv),
          availabilityZones = z # zs,
          constructs =
            [[''wlz-ec2-demo-role''], [''wlz-ec2-demo-role'', ''Resource''],
             [''AppVPC''], [''AppVPC'', ''Resource''],
             [''AppVPC'', ''PublicSubnet1''],
             [''AppVPC'', ''PublicSubnet1'', ''Subnet''],
             [''AppVPC'', ''PublicSubnet1'', ''RouteTable''],
             [''AppVPC'', ''PublicSubnet1'', ''RouteTableAssociation''],
             [''AppVPC'', ''PrivateSubnet1''],
             [''AppVPC'', ''PrivateSubnet1'', ''Subnet''],
             [''AppVPC'', ''PrivateSubnet1'', ''RouteTable''],
             [''AppVPC'', ''PrivateSubnet1'', ''RouteTableAssociation''],
             [''AppVPC'', ''IGW''], [''AppVPC'', ''VPCGW''],
             [''AppVPC'', ''PublicSubnet1'', ''DefaultRoute''],
             [''AppVPC'', ''PublicSubnet1'', ''EIP''],
             [''AppVPC'', ''PublicSubnet1'', ''NATGateway''],
             [''AppVPC'', ''PrivateSubnet1'', ''DefaultRoute''],
             [''wlz-ec2-cagw''], [''wlz-private-subnet''],
             [''wlz-private-subnet'', ''Subnet''],
             [''wlz-private-subnet'', ''RouteTable''],
             [''wlz-private-subnet'', ''RouteTableAssociation''],
             [''wlz-route''], [''wlz-sg''], [''wlz-sg'', ''Resource''],
             [''wlz-instance-profile''], [''wl-launch-template''], [''wlz-ec2-instance''],
             [''wlz-instance-publicDNS:'']],
          resources =
            [([''wlz-ec2-demo-role'', ''Resource''],
              IAM_Role (ServicePrincipal ''ec2.amazonaws.com'')),
             ([''AppVPC'', ''Resource''], EC2_VPC (Cidr 10 0 0 0 16)),
             ([''AppVPC'', ''PublicSubnet1'', ''Subnet''],
                   EC2_Subnet
                     \<lparr>availabilityZone = z, cidrBlock = Cidr 10 0 0 0 24,
                      vpcId = Ref [''AppVPC'', ''Resource''], mapPublicIpOnLaunch = True\<rparr>),
                  ([''AppVPC'', ''PublicSubnet1'', ''RouteTable''],
                   EC2_RouteTable (Ref [''AppVPC'', ''Resource''])),
                  ([''AppVPC'', ''PublicSubnet1'', ''RouteTableAssociation''],
                   EC2_SubnetRouteTableAssociation
                     (Ref [''AppVPC'', ''PublicSubnet1'', ''RouteTable''])
                     (Ref [''AppVPC'', ''PublicSubnet1'', ''Subnet''])),
                  ([''AppVPC'', ''PrivateSubnet1'', ''Subnet''],
                   EC2_Subnet
                     \<lparr>availabilityZone = z, cidrBlock = Cidr 10 0 1 0 24,
                      vpcId = Ref [''AppVPC'', ''Resource''], mapPublicIpOnLaunch = False\<rparr>),
                  ([''AppVPC'', ''PrivateSubnet1'', ''RouteTable''],
                   EC2_RouteTable (Ref [''AppVPC'', ''Resource''])),
                  ([''AppVPC'', ''PrivateSubnet1'', ''RouteTableAssociation''],
                   EC2_SubnetRouteTableAssociation
                     (Ref [''AppVPC'', ''PrivateSubnet1'', ''RouteTable''])
                     (Ref [''AppVPC'', ''PrivateSubnet1'', ''Subnet''])),
             ([''AppVPC'', ''IGW''], EC2_InternetGateway),
             ([''AppVPC'', ''VPCGW''],
              EC2_VPCGatewayAttachment (Ref [''AppVPC'', ''IGW'']) (Ref [''AppVPC'', ''Resource''])),
             ([''AppVPC'', ''PublicSubnet1'', ''DefaultRoute''],
                   EC2_Route
                     \<lparr>destinationCidrBlock = Cidr 0 0 0 0 0,
                      routeTableId = Ref [''AppVPC'', ''PublicSubnet1'', ''RouteTable''],
                      gatewayId = Some (Ref [''AppVPC'', ''IGW'']),
                      natGatewayId = None, carrierGatewayId = None\<rparr>),
                  ([''AppVPC'', ''PublicSubnet1'', ''EIP''], EC2_EIP),
                  ([''AppVPC'', ''PublicSubnet1'', ''NATGateway''],
                   EC2_NatGateway
                     (Ref [''AppVPC'', ''PublicSubnet1'', ''Subnet''])
                     (GetAtt [''AppVPC'', ''PublicSubnet1'', ''EIP''] ''AllocationId'')),
                  ([''AppVPC'', ''PrivateSubnet1'', ''DefaultRoute''],
                   EC2_Route
                     \<lparr>destinationCidrBlock = Cidr 0 0 0 0 0,
                      routeTableId = Ref [''AppVPC'', ''PrivateSubnet1'', ''RouteTable''],
                      gatewayId = None,
                      natGatewayId = Some (Ref [''AppVPC'', ''PublicSubnet1'', ''NATGateway'']),
                      carrierGatewayId = None\<rparr>),
             ([''wlz-ec2-cagw''], EC2_CarrierGateway (Ref [''AppVPC'', ''Resource''])),
             ([''wlz-private-subnet'', ''Subnet''],
              EC2_Subnet
                \<lparr>availabilityZone = Zone ''us-west-2-wl1-sfo-wlz-1'',
                 cidrBlock = Cidr 10 0 2 0 26,
                 vpcId = Ref [''AppVPC'', ''Resource''], mapPublicIpOnLaunch = False\<rparr>),
             ([''wlz-private-subnet'', ''RouteTable''],
              EC2_RouteTable (Ref [''AppVPC'', ''Resource''])),
             ([''wlz-private-subnet'', ''RouteTableAssociation''],
              EC2_SubnetRouteTableAssociation
                (Ref [''wlz-private-subnet'', ''RouteTable''])
                (Ref [''wlz-private-subnet'', ''Subnet''])),
             ([''wlz-route''],
              EC2_Route
                \<lparr>destinationCidrBlock = Cidr 0 0 0 0 0,
                 routeTableId = Ref [''wlz-private-subnet'', ''RouteTable''],
                 gatewayId = None, natGatewayId = None,
                 carrierGatewayId = Some (Ref [''wlz-ec2-cagw''])\<rparr>),
             ([''wlz-sg'', ''Resource''],
              EC2_SecurityGroup
                \<lparr>groupName = Some ''wlz-sg'',
                 groupVpcId = Ref [''AppVPC'', ''Resource''],
                 securityGroupIngress =
                   [\<lparr>rulePeer = Ipv4 (Cidr 0 0 0 0 0),
                     rulePort = \<lparr>protocol = TCP, fromPort = Some 22, toPort = Some 22\<rparr>,
                     ruleDescription = ''Allows SSH access from bastion''\<rparr>,
                    \<lparr>rulePeer = Ipv4 (Cidr 0 0 0 0 0),
                     rulePort = \<lparr>protocol = TCP, fromPort = Some 5000, toPort = Some 5000\<rparr>,
                     ruleDescription = ''Allows HTTP access from carrier network''\<rparr>,
                    \<lparr>rulePeer = Ipv4 (Cidr 0 0 0 0 0),
                     rulePort = \<lparr>protocol = ICMP, fromPort = Some 8, toPort = Some (- 1)\<rparr>,
                     ruleDescription = ''Allows ICMP pings from carrier devices''\<rparr>],
                 securityGroupEgress =
                   [\<lparr>rulePeer = Ipv4 (Cidr 0 0 0 0 0),
                     rulePort = \<lparr>protocol = ALL_PROTOCOLS, fromPort = None, toPort = None\<rparr>,
                     ruleDescription = ''Allow all outbound traffic by default''\<rparr>]\<rparr>),
             ([''wlz-instance-profile''],
              IAM_InstanceProfile [Ref [''wlz-ec2-demo-role'', ''Resource'']]),
             ([''wl-launch-template''],
              EC2_LaunchTemplate
                \<lparr>launchTemplateName = ''wl-launch-template'',
                 launchTemplateData =
                   \<lparr>networkInterfaces =
                      [\<lparr>deviceIndex = 0, associateCarrierIpAddress = True,
                        groups = [GetAtt [''wlz-sg'', ''Resource''] ''GroupId''],
                        deleteOnTermination = True,
                        subnetId = Ref [''wlz-private-subnet'', ''Subnet'']\<rparr>],
                    imageId =
                      SsmParameter ''/aws/service/ami-amazon-linux-latest/amzn-ami-hvm-x86_64-gp2'',
                    instanceType = ''t3.medium'',
                    keyName = ''wl-cdk-demo-1'',
                    iamInstanceProfile = \<lparr>arn = GetAtt [''wlz-instance-profile''] ''Arn''\<rparr>\<rparr>\<rparr>),
             ([''wlz-ec2-instance''],
              EC2_Instance
                \<lparr>launchTemplate =
                   \<lparr>specLaunchTemplateName = ''wl-launch-template'',
                    version = GetAtt [''wl-launch-template''] ''DefaultVersionNumber''\<rparr>,
                 instanceAvailabilityZone = ''us-west-2-wl1-sfo-wlz-1''\<rparr>)],
          outputs =
            [([''wlz-instance-publicDNS:''], GetAtt [''wlz-ec2-instance''] ''PublicDnsName'')]\<rparr>,
        role =
          \<lparr>roleNode = [''wlz-ec2-demo-role''],
           roleName = Ref [''wlz-ec2-demo-role'', ''Resource'']\<rparr>,
        vpc =
          \<lparr>vpcNode = [''AppVPC''], vpc_vpcId = Ref [''AppVPC'', ''Resource''],
           publicSubnets =
             [\<lparr>node = [''AppVPC'', ''PublicSubnet1''],
                    subnet_subnetId = Ref [''AppVPC'', ''PublicSubnet1'', ''Subnet''],
                    subnet_availabilityZone = z,
                    ipv4CidrBlock = Cidr 10 0 0 0 24,
                    routeTable_routeTableId = Ref [''AppVPC'', ''PublicSubnet1'', ''RouteTable'']\<rparr>],
           privateSubnets =
             [\<lparr>node = [''AppVPC'', ''PrivateSubnet1''],
                    subnet_subnetId = Ref [''AppVPC'', ''PrivateSubnet1'', ''Subnet''],
                    subnet_availabilityZone = z,
                    ipv4CidrBlock = Cidr 10 0 1 0 24,
                    routeTable_routeTableId = Ref [''AppVPC'', ''PrivateSubnet1'', ''RouteTable'']\<rparr>,
             \<lparr>node = [''wlz-private-subnet''],
               subnet_subnetId = Ref [''wlz-private-subnet'', ''Subnet''],
               subnet_availabilityZone = Zone ''us-west-2-wl1-sfo-wlz-1'',
               ipv4CidrBlock = Cidr 10 0 2 0 26,
               routeTable_routeTableId = Ref [''wlz-private-subnet'', ''RouteTable'']\<rparr>],
           isolatedSubnets = []\<rparr>,
        cagw = [''wlz-ec2-cagw''],
        wlPrivateSubnet =
          \<lparr>node = [''wlz-private-subnet''],
           subnet_subnetId = Ref [''wlz-private-subnet'', ''Subnet''],
           subnet_availabilityZone = Zone ''us-west-2-wl1-sfo-wlz-1'',
           ipv4CidrBlock = Cidr 10 0 2 0 26,
           routeTable_routeTableId = Ref [''wlz-private-subnet'', ''RouteTable'']\<rparr>,
        securityGroup =
          \<lparr>sgNode = [''wlz-sg''],
           securityGroupId = GetAtt [''wlz-sg'', ''Resource''] ''GroupId'',
           sgAllowAllOutbound = True\<rparr>,
        instanceProfile = [''wlz-instance-profile''],
        wlLaunchTemplate =
          \<lparr>ltNode = [''wl-launch-template''],
           ltProps =
             \<lparr>launchTemplateName = ''wl-launch-template'',
              launchTemplateData =
                \<lparr>networkInterfaces =
                   [\<lparr>deviceIndex = 0, associateCarrierIpAddress = True,
                     groups = [GetAtt [''wlz-sg'', ''Resource''] ''GroupId''],
                     deleteOnTermination = True,
                     subnetId = Ref [''wlz-private-subnet'', ''Subnet'']\<rparr>],
                 imageId =
                   SsmParameter ''/aws/service/ami-amazon-linux-latest/amzn-ami-hvm-x86_64-gp2'',
                 instanceType = ''t3.medium'',
                 keyName = ''wl-cdk-demo-1'',
                 iamInstanceProfile = \<lparr>arn = GetAtt [''wlz-instance-profile''] ''Arn''\<rparr>\<rparr>\<rparr>\<rparr>,
        wlEc2Instance = [''wlz-ec2-instance'']\<rparr>"
proof -
  have "ident \<noteq> []"
    using valid by (rule validStackName_nonempty)
  then show ?thesis
    using zones valid
    by (simp add: WlEc2Stack_new_def Stack_new_def construct_defs cidr_defs)
qed








section \<open>Properties of the declaration\<close>

text \<open>
  Every property is stated for the inputs on which the constructor returns: an app whose
  context has at least one zone for the stack, and a stack id that is a valid stack name.
  On the other inputs the toolkit throws (\<open>WlEc2Stack_new_succeeds_iff\<close>).
\<close>







text \<open>
  C4. End to end, with \<open>AWS_ACCOUNT_NUMBER = 111111111111\<close> and
  \<open>AWS_REGION = us-west-2\<close> in the process environment: the program synthesises a
  template for a stack of that account and region; the template has one instance, whose
  availability zone is the configured edge zone \<open>us-west-2-wl1-sfo-wlz-1\<close>, and one
  output, whose value is that instance's public DNS name attribute.
\<close>

theorem end_to_end_instance_and_output:
  assumes "penv ''AWS_ACCOUNT_NUMBER'' = Some ''111111111111''"
    and "penv ''AWS_REGION'' = Some ''us-west-2''"
    and zones: "contextZones app \<noteq> []"
  shows "\<exists>w t. WlEc2Stack_new penv app ''WlEc2Stack'' (Some \<lparr>description = None, env = None\<rparr>) = Inr w \<and>
     stackEnv (stack w) = Some \<lparr>account = Some ''111111111111'', region = Some ''us-west-2''\<rparr> \<and>
     main penv app = Inr t \<and>
     t = synth (stack w) \<and>
     instancesOf t =
       [(wlEc2Instance w,
         \<lparr>launchTemplate =
            \<lparr>specLaunchTemplateName = ''wl-launch-template'',
             version = GetAtt [''wl-launch-template''] ''DefaultVersionNumber''\<rparr>,
          instanceAvailabilityZone = ''us-west-2-wl1-sfo-wlz-1''\<rparr>)] \<and>
     map (instanceAvailabilityZone \<circ> snd) (instancesOf t) = [wavelengthAZ] \<and>
     wavelengthAZ = ''us-west-2-wl1-sfo-wlz-1'' \<and>
     map snd (Outputs t) = [attrPublicDnsName (wlEc2Instance w)] \<and>
     attrPublicDnsName (wlEc2Instance w) = GetAtt [''wlz-ec2-instance''] ''PublicDnsName''"
proof -
  from zones obtain z zs where zs: "contextZones app = z # zs"
    by (cases "contextZones app") auto
  show ?thesis
    using assms(1,2)
    by (simp add: main_def andThen_def synth_def instancesOf_def
        WlEc2Stack_new_result [OF zs validStackName_WlEc2Stack]
        config_env_def wavelengthAZ_def attrPublicDnsName_def)
qed

theorem end_to_end_instance_and_output_witness:
  "\<exists>t. main [''AWS_ACCOUNT_NUMBER'' \<mapsto> ''111111111111'', ''AWS_REGION'' \<mapsto> ''us-west-2'']
          \<lparr>contextZones = [Zone ''us-west-2a'', Zone ''us-west-2b'']\<rparr> = Inr t \<and>
     map (instanceAvailabilityZone \<circ> snd) (instancesOf t) = [''us-west-2-wl1-sfo-wlz-1''] \<and>
     map snd (Outputs t) = [GetAtt [''wlz-ec2-instance''] ''PublicDnsName'']"
  using end_to_end_instance_and_output
    [of "[''AWS_ACCOUNT_NUMBER'' \<mapsto> ''111111111111'', ''AWS_REGION'' \<mapsto> ''us-west-2'']"
        "\<lparr>contextZones = [Zone ''us-west-2a'', Zone ''us-west-2b'']\<rparr>"]
  by auto













end
